theory Spec2Isabelle
  imports Complex_Main
begin

section \<open>Data model (core/types.ts)\<close>

text \<open>
  JavaScript numbers are modelled as follows: counters that the schemas declare as
  non-negative integers (\<open>turn\<close>, \<open>usedTurns\<close>, \<open>maxTurns\<close>, \<open>convergenceStreak\<close>, ...)
  are \<open>nat\<close>; fractional quantities (\<open>coverage\<close>, \<open>overallScore\<close>, metric values) are
  \<open>real\<close>, the exact arithmetic that the doubles of the source approximate.
  A \<open>Date\<close> is its number of milliseconds since the epoch. Identifiers are strings.
\<close>

type_synonym timestamp = int

datatype Phase =
  Requirements | Design | Implementation | Testing | Documentation | Verification

definition PHASE_ORDER :: "Phase list" where
  "PHASE_ORDER =
     [Requirements, Design, Implementation, Testing, Documentation, Verification]"

record ChecklistItem =
  ci_id :: string
  ci_phase :: Phase
  ci_description :: string
  ci_completed :: bool
  ci_evidence :: "string option"
  ci_completedAt :: "timestamp option"

record Artifact =
  art_id :: string
  art_path :: string
  art_hash :: string
  art_phase :: Phase
  art_createdAt :: timestamp
  art_updatedAt :: timestamp

record TurnBudget =
  tb_phase :: Phase
  maxTurns :: nat
  usedTurns :: nat

record TestResult =
  tr_passed :: bool
  totalTests :: nat
  passedTests :: nat
  failedTests :: nat
  tr_coverage :: "real option"
  failures :: "(string \<times> string) list"

record CheckpointSummary =
  cs_id :: string
  cs_phase :: Phase
  cs_turn :: nat
  cs_completed :: nat
  cs_total :: nat
  artifactCount :: nat
  cs_confidence :: real
  cs_createdAt :: timestamp

record Confidence =
  typesSafe :: bool
  schemaValid :: bool
  testsPass :: bool
  coverage :: real
  checklistComplete :: bool
  overallScore :: real

record State =
  phase :: Phase
  turn :: nat
  prompt :: string
  checklist :: "ChecklistItem list"
  artifacts :: "Artifact list"
  budgets :: "TurnBudget list"
  confidence :: Confidence
  pendingCheckpoint :: "CheckpointSummary option"
  lastApprovedCheckpoint :: "CheckpointSummary option"
  convergenceStreak :: nat
  converged :: bool
  startedAt :: timestamp
  lastActivityAt :: timestamp

datatype Event =
    Initialized string "ChecklistItem list" "TurnBudget list" timestamp
  | PhaseStarted Phase TurnBudget timestamp
  | PhaseCompleted Phase nat timestamp
  | TurnStarted nat Phase timestamp
  | TurnCompleted nat Phase nat timestamp
  | ArtifactCreated Artifact timestamp
  | ArtifactUpdated string string timestamp
  | ChecklistItemCompleted string string timestamp
  | TestsPassed TestResult timestamp
  | TestsFailed TestResult timestamp
  | TypeCheckPassed timestamp
  | TypeCheckFailed "string list" timestamp
  | ConfidenceUpdated Confidence timestamp
  | CheckpointCreated CheckpointSummary timestamp
  | CheckpointApproved string timestamp
  | CheckpointRejected string string timestamp
  | ConvergenceReached real nat timestamp
  | BudgetExhausted Phase nat timestamp
  | ErrorOccurred string bool timestamp

text \<open>Every event variant carries a \<open>timestamp\<close> field; this reads it.\<close>

fun timestamp_of :: "Event \<Rightarrow> timestamp" where
  "timestamp_of (Initialized p cl bs t) = t"
| "timestamp_of (PhaseStarted ph b t) = t"
| "timestamp_of (PhaseCompleted ph n t) = t"
| "timestamp_of (TurnStarted n ph t) = t"
| "timestamp_of (TurnCompleted n ph k t) = t"
| "timestamp_of (ArtifactCreated a t) = t"
| "timestamp_of (ArtifactUpdated i h t) = t"
| "timestamp_of (ChecklistItemCompleted i e t) = t"
| "timestamp_of (TestsPassed r t) = t"
| "timestamp_of (TestsFailed r t) = t"
| "timestamp_of (TypeCheckPassed t) = t"
| "timestamp_of (TypeCheckFailed es t) = t"
| "timestamp_of (ConfidenceUpdated c t) = t"
| "timestamp_of (CheckpointCreated s t) = t"
| "timestamp_of (CheckpointApproved i t) = t"
| "timestamp_of (CheckpointRejected i r t) = t"
| "timestamp_of (ConvergenceReached f n t) = t"
| "timestamp_of (BudgetExhausted ph n t) = t"
| "timestamp_of (ErrorOccurred m r t) = t"

subsection \<open>Confidence calculation and convergence check\<close>

definition calculateOverallConfidence :: "Confidence \<Rightarrow> real" where
  "calculateOverallConfidence c =
     (if \<not> typesSafe c then 0
      else if \<not> schemaValid c then 0
      else if \<not> testsPass c then 0.3
      else
        (let coverageScore = min (coverage c / 80) 1 * 0.25;
             checklistScore = (if checklistComplete c then 0.25 else 0);
             baseScore = 0.5
         in baseScore + coverageScore + checklistScore))"

definition CONVERGENCE_THRESHOLD :: real where
  "CONVERGENCE_THRESHOLD = 0.9"

definition CONVERGENCE_STREAK_REQUIRED :: nat where
  "CONVERGENCE_STREAK_REQUIRED = 3"

definition hasConverged :: "State \<Rightarrow> bool" where
  "hasConverged s \<longleftrightarrow>
     overallScore (confidence s) \<ge> CONVERGENCE_THRESHOLD \<and>
     convergenceStreak s \<ge> CONVERGENCE_STREAK_REQUIRED"

section \<open>The evolver (core/evolve.ts)\<close>

text \<open>
  \<open>Array.prototype.indexOf\<close>: the position of the first occurrence, or \<open>-1\<close>.
  \<open>arr[i]\<close> on a JavaScript array yields \<open>undefined\<close> out of range, here \<open>None\<close>.
\<close>

fun indexOf :: "'a list \<Rightarrow> 'a \<Rightarrow> int" where
  "indexOf [] x = -1"
| "indexOf (y # ys) x =
     (if y = x then 0
      else (let r = indexOf ys x in if r < 0 then -1 else r + 1))"

definition at_index :: "'a list \<Rightarrow> int \<Rightarrow> 'a option" where
  "at_index xs i =
     (if 0 \<le> i \<and> i < int (length xs) then Some (xs ! nat i) else None)"

definition evolveInitialized ::
  "State \<Rightarrow> string \<Rightarrow> ChecklistItem list \<Rightarrow> TurnBudget list \<Rightarrow> timestamp \<Rightarrow> State" where
  "evolveInitialized s p cl bs t =
     s\<lparr>prompt := p, checklist := cl, budgets := bs, phase := Requirements,
       turn := 0, startedAt := t, lastActivityAt := t\<rparr>"

definition evolvePhaseStarted :: "State \<Rightarrow> Phase \<Rightarrow> TurnBudget \<Rightarrow> timestamp \<Rightarrow> State" where
  "evolvePhaseStarted s ph budget t =
     (let updatedBudgets = map (\<lambda>b. if tb_phase b = ph then budget else b) (budgets s)
      in s\<lparr>phase := ph, budgets := updatedBudgets, lastActivityAt := t\<rparr>)"

definition evolvePhaseCompleted :: "State \<Rightarrow> Phase \<Rightarrow> nat \<Rightarrow> timestamp \<Rightarrow> State" where
  "evolvePhaseCompleted s ph turnsUsed t =
     (let updatedBudgets =
            map (\<lambda>b. if tb_phase b = ph then b\<lparr>usedTurns := turnsUsed\<rparr> else b) (budgets s);
          currentIndex = indexOf PHASE_ORDER ph;
          nextPhase = (case at_index PHASE_ORDER (currentIndex + 1) of
                         Some n \<Rightarrow> n | None \<Rightarrow> ph)
      in s\<lparr>phase := nextPhase, budgets := updatedBudgets, lastActivityAt := t\<rparr>)"

definition evolveTurnStarted :: "State \<Rightarrow> nat \<Rightarrow> timestamp \<Rightarrow> State" where
  "evolveTurnStarted s n t = s\<lparr>turn := n, lastActivityAt := t\<rparr>"

definition evolveTurnCompleted :: "State \<Rightarrow> Phase \<Rightarrow> timestamp \<Rightarrow> State" where
  "evolveTurnCompleted s ph t =
     (let updatedBudgets =
            map (\<lambda>b. if tb_phase b = ph then b\<lparr>usedTurns := usedTurns b + 1\<rparr> else b)
              (budgets s)
      in s\<lparr>budgets := updatedBudgets, lastActivityAt := t\<rparr>)"

definition evolveArtifactCreated :: "State \<Rightarrow> Artifact \<Rightarrow> timestamp \<Rightarrow> State" where
  "evolveArtifactCreated s a t =
     s\<lparr>artifacts := artifacts s @ [a], lastActivityAt := t\<rparr>"

definition evolveArtifactUpdated :: "State \<Rightarrow> string \<Rightarrow> string \<Rightarrow> timestamp \<Rightarrow> State" where
  "evolveArtifactUpdated s artifactId newHash t =
     (let updatedArtifacts =
            map (\<lambda>a. if art_id a = artifactId
                      then a\<lparr>art_hash := newHash, art_updatedAt := t\<rparr> else a)
              (artifacts s)
      in s\<lparr>artifacts := updatedArtifacts, lastActivityAt := t\<rparr>)"

definition evolveChecklistItemCompleted ::
  "State \<Rightarrow> string \<Rightarrow> string \<Rightarrow> timestamp \<Rightarrow> State" where
  "evolveChecklistItemCompleted s itemId evidence t =
     (let updatedChecklist =
            map (\<lambda>item. if ci_id item = itemId
                         then item\<lparr>ci_completed := True, ci_evidence := Some evidence,
                                   ci_completedAt := Some t\<rparr>
                         else item)
              (checklist s);
          checklistComplete' = list_all ci_completed updatedChecklist;
          c1 = (confidence s)\<lparr>checklistComplete := checklistComplete'\<rparr>;
          updatedConfidence = c1\<lparr>overallScore := calculateOverallConfidence c1\<rparr>
      in s\<lparr>checklist := updatedChecklist, confidence := updatedConfidence,
           lastActivityAt := t\<rparr>)"

definition evolveTestsPassed :: "State \<Rightarrow> TestResult \<Rightarrow> timestamp \<Rightarrow> State" where
  "evolveTestsPassed s result t =
     (let c1 = (confidence s)\<lparr>testsPass := True,
                 coverage := (case tr_coverage result of
                                Some c \<Rightarrow> c | None \<Rightarrow> coverage (confidence s))\<rparr>;
          updatedConfidence = c1\<lparr>overallScore := calculateOverallConfidence c1\<rparr>;
          newStreak = convergenceStreak s + 1
      in s\<lparr>confidence := updatedConfidence,
           convergenceStreak := newStreak,
           converged := hasConverged
                          (s\<lparr>confidence := updatedConfidence, convergenceStreak := newStreak\<rparr>),
           lastActivityAt := t\<rparr>)"

definition evolveTestsFailed :: "State \<Rightarrow> TestResult \<Rightarrow> timestamp \<Rightarrow> State" where
  "evolveTestsFailed s result t =
     (let c1 = (confidence s)\<lparr>testsPass := False,
                 coverage := (case tr_coverage result of
                                Some c \<Rightarrow> c | None \<Rightarrow> coverage (confidence s))\<rparr>;
          updatedConfidence = c1\<lparr>overallScore := calculateOverallConfidence c1\<rparr>
      in s\<lparr>confidence := updatedConfidence, convergenceStreak := 0,
           lastActivityAt := t\<rparr>)"

definition evolveTypeCheckPassed :: "State \<Rightarrow> timestamp \<Rightarrow> State" where
  "evolveTypeCheckPassed s t =
     (let c1 = (confidence s)\<lparr>typesSafe := True\<rparr>;
          updatedConfidence = c1\<lparr>overallScore := calculateOverallConfidence c1\<rparr>
      in s\<lparr>confidence := updatedConfidence, lastActivityAt := t\<rparr>)"

definition evolveTypeCheckFailed :: "State \<Rightarrow> timestamp \<Rightarrow> State" where
  "evolveTypeCheckFailed s t =
     (let c1 = (confidence s)\<lparr>typesSafe := False\<rparr>;
          updatedConfidence = c1\<lparr>overallScore := calculateOverallConfidence c1\<rparr>
      in s\<lparr>confidence := updatedConfidence, convergenceStreak := 0,
           lastActivityAt := t\<rparr>)"

definition evolveConfidenceUpdated :: "State \<Rightarrow> Confidence \<Rightarrow> timestamp \<Rightarrow> State" where
  "evolveConfidenceUpdated s c t =
     s\<lparr>confidence := c, converged := hasConverged (s\<lparr>confidence := c\<rparr>),
       lastActivityAt := t\<rparr>"

definition evolveCheckpointCreated :: "State \<Rightarrow> CheckpointSummary \<Rightarrow> timestamp \<Rightarrow> State" where
  "evolveCheckpointCreated s summary t =
     s\<lparr>pendingCheckpoint := Some summary, lastActivityAt := t\<rparr>"

text \<open>
  \<open>state.pendingCheckpoint?.id !== event.checkpointId\<close>: with no pending checkpoint the
  left-hand side is \<open>undefined\<close>, which differs from every identifier string.
\<close>

definition pending_id_differs :: "State \<Rightarrow> string \<Rightarrow> bool" where
  "pending_id_differs s checkpointId =
     (case pendingCheckpoint s of None \<Rightarrow> True | Some p \<Rightarrow> cs_id p \<noteq> checkpointId)"

definition evolveCheckpointApproved :: "State \<Rightarrow> string \<Rightarrow> timestamp \<Rightarrow> State" where
  "evolveCheckpointApproved s checkpointId t =
     (if pending_id_differs s checkpointId then s
      else s\<lparr>lastApprovedCheckpoint := pendingCheckpoint s,
             pendingCheckpoint := None, lastActivityAt := t\<rparr>)"

definition evolveCheckpointRejected :: "State \<Rightarrow> string \<Rightarrow> timestamp \<Rightarrow> State" where
  "evolveCheckpointRejected s checkpointId t =
     (if pending_id_differs s checkpointId then s
      else s\<lparr>pendingCheckpoint := None, lastActivityAt := t\<rparr>)"

definition evolveConvergenceReached :: "State \<Rightarrow> real \<Rightarrow> timestamp \<Rightarrow> State" where
  "evolveConvergenceReached s finalConfidence t =
     s\<lparr>converged := True,
       confidence := (confidence s)\<lparr>overallScore := finalConfidence\<rparr>,
       lastActivityAt := t\<rparr>"

definition evolveBudgetExhausted :: "State \<Rightarrow> Phase \<Rightarrow> nat \<Rightarrow> timestamp \<Rightarrow> State" where
  "evolveBudgetExhausted s ph turnsUsed t =
     (let updatedBudgets =
            map (\<lambda>b. if tb_phase b = ph then b\<lparr>usedTurns := turnsUsed\<rparr> else b) (budgets s)
      in s\<lparr>budgets := updatedBudgets, lastActivityAt := t\<rparr>)"

definition evolveErrorOccurred :: "State \<Rightarrow> timestamp \<Rightarrow> State" where
  "evolveErrorOccurred s t = s\<lparr>lastActivityAt := t\<rparr>"

fun evolve :: "State \<Rightarrow> Event \<Rightarrow> State" where
  "evolve s (Initialized p cl bs t) = evolveInitialized s p cl bs t"
| "evolve s (PhaseStarted ph b t) = evolvePhaseStarted s ph b t"
| "evolve s (PhaseCompleted ph n t) = evolvePhaseCompleted s ph n t"
| "evolve s (TurnStarted n ph t) = evolveTurnStarted s n t"
| "evolve s (TurnCompleted n ph k t) = evolveTurnCompleted s ph t"
| "evolve s (ArtifactCreated a t) = evolveArtifactCreated s a t"
| "evolve s (ArtifactUpdated i h t) = evolveArtifactUpdated s i h t"
| "evolve s (ChecklistItemCompleted i e t) = evolveChecklistItemCompleted s i e t"
| "evolve s (TestsPassed r t) = evolveTestsPassed s r t"
| "evolve s (TestsFailed r t) = evolveTestsFailed s r t"
| "evolve s (TypeCheckPassed t) = evolveTypeCheckPassed s t"
| "evolve s (TypeCheckFailed es t) = evolveTypeCheckFailed s t"
| "evolve s (ConfidenceUpdated c t) = evolveConfidenceUpdated s c t"
| "evolve s (CheckpointCreated summary t) = evolveCheckpointCreated s summary t"
| "evolve s (CheckpointApproved i t) = evolveCheckpointApproved s i t"
| "evolve s (CheckpointRejected i r t) = evolveCheckpointRejected s i t"
| "evolve s (ConvergenceReached f n t) = evolveConvergenceReached s f t"
| "evolve s (BudgetExhausted ph n t) = evolveBudgetExhausted s ph n t"
| "evolve s (ErrorOccurred m r t) = evolveErrorOccurred s t"

text \<open>\<open>replay\<close>: \<open>events.reduce(evolve, initialState)\<close>.\<close>

definition replay :: "Event list \<Rightarrow> State \<Rightarrow> State" where
  "replay events initialState = foldl evolve initialState events"

section \<open>Effects and commands (core/types.ts)\<close>

text \<open>
  Values of type \<open>unknown\<close> (log contexts, span attributes, tool-use inputs) are
  modelled by a small datatype of JavaScript values.
\<close>

datatype jsval =
    JUndefined
  | JNull
  | JBool bool
  | JNum real
  | JStr string
  | JDate timestamp
  | JArr "jsval list"
  | JObj "(string \<times> jsval) list"

text \<open>JavaScript truthiness, as tested by \<open>&&\<close>, \<open>||\<close> and \<open>if\<close>.\<close>

fun truthy :: "jsval \<Rightarrow> bool" where
  "truthy JUndefined = False"
| "truthy JNull = False"
| "truthy (JBool b) = b"
| "truthy (JNum n) = (n \<noteq> 0)"
| "truthy (JStr s) = (s \<noteq> [])"
| "truthy (JDate t) = True"
| "truthy (JArr xs) = True"
| "truthy (JObj kvs) = True"

text \<open>\<open>typeof v === 'object' && v !== null\<close>.\<close>

fun is_object :: "jsval \<Rightarrow> bool" where
  "is_object (JDate t) = True"
| "is_object (JArr xs) = True"
| "is_object (JObj kvs) = True"
| "is_object v = False"

text \<open>Property read \<open>v.k\<close> for a named (non-index) key; absent properties are \<open>undefined\<close>.\<close>

fun get_prop :: "jsval \<Rightarrow> string \<Rightarrow> jsval" where
  "get_prop (JObj kvs) k = (case map_of kvs k of Some v \<Rightarrow> v | None \<Rightarrow> JUndefined)"
| "get_prop v k = JUndefined"

record ToolUse =
  tool :: string
  input :: jsval
  tu_result :: "jsval option"

record LLMResponse =
  content :: string
  toolUses :: "ToolUse list"
  tokensUsed :: nat

datatype Command =
    Initialize string "TurnBudget list option"
  | AdvancePhase
  | StartTurn
  | ProcessLLMResponse LLMResponse
  | RecordArtifact string string
  | RecordTestResult TestResult
  | RecordTypeCheck bool "string list option"
  | CompleteChecklistItem string string
  | RequestCheckpoint
  | ApproveCheckpoint
  | RejectCheckpoint string
  | Timeout Phase
  | Error string bool

datatype LogLevel = LDebug | LInfo | LWarn | LError

datatype SpanStatus = SpanOk | SpanError

text \<open>
  The prompt texts are template literals. The model keeps, for each template, the values
  that fill its holes (the rendering itself, with \<open>toUpperCase\<close> and \<open>toFixed\<close>, is
  plain text layout): \<open>RequirementsExtractionPrompt p\<close> stands for
  \<open>buildRequirementsExtractionPrompt(p)\<close>, and \<open>PhasePrompt\<close> for the text built by
  \<open>buildPhasePrompt\<close> from the phase, the turn, the overall score, the project prompt
  and the three item listings. The system prompts are fixed texts, one for requirements
  extraction and one per phase.
\<close>

datatype Prompt =
    RequirementsExtractionPrompt string
  | PhasePrompt Phase nat real string string string string

datatype SystemPrompt =
    REQUIREMENTS_EXTRACTION_SYSTEM_PROMPT
  | PhaseSystemPrompt Phase

datatype Effect =
    InvokeLLM Prompt "SystemPrompt option" nat "real option"
  | WriteFile jsval jsval
  | ReadFile string
  | DeleteFile string
  | ListDirectory string "bool option"
  | RunTests "string option" "bool option"
  | CheckTypes
  | ValidateSchema string string
  | StartSpan string "(string \<times> jsval) list"
  | EndSpan string SpanStatus "string option"
  | RecordMetric string real "(string \<times> string) list"
  | Log LogLevel string "(string \<times> jsval) list"
  | EmitCheckpoint CheckpointSummary
  | WaitForApproval string nat
  | PersistEvent Event
  | CreateSnapshot State nat

fun isInvokeLLM :: "Effect \<Rightarrow> bool" where
  "isInvokeLLM (InvokeLLM p sp m t) = True"
| "isInvokeLLM e = False"

fun isPersistEvent :: "Effect \<Rightarrow> bool" where
  "isPersistEvent (PersistEvent ev) = True"
| "isPersistEvent e = False"

fun isCreateSnapshot :: "Effect \<Rightarrow> bool" where
  "isCreateSnapshot (CreateSnapshot s n) = True"
| "isCreateSnapshot e = False"

section \<open>The decider (core/decide.ts)\<close>

subsection \<open>Helper functions\<close>

text \<open>A phase as the string the source uses for it.\<close>

fun phase_name :: "Phase \<Rightarrow> string" where
  "phase_name Requirements = ''requirements''"
| "phase_name Design = ''design''"
| "phase_name Implementation = ''implementation''"
| "phase_name Testing = ''testing''"
| "phase_name Documentation = ''documentation''"
| "phase_name Verification = ''verification''"

definition log_effect :: "LogLevel \<Rightarrow> string \<Rightarrow> (string \<times> jsval) list \<Rightarrow> Effect" where
  "log_effect level message context = Log level message context"

definition startSpan :: "string \<Rightarrow> (string \<times> jsval) list \<Rightarrow> Effect" where
  "startSpan name attributes = StartSpan name attributes"

definition recordMetric :: "string \<Rightarrow> real \<Rightarrow> (string \<times> string) list \<Rightarrow> Effect" where
  "recordMetric name v tags = RecordMetric name v tags"

definition isPhaseChecklistComplete :: "State \<Rightarrow> Phase \<Rightarrow> bool" where
  "isPhaseChecklistComplete s ph =
     (let phaseItems = filter (\<lambda>i. ci_phase i = ph) (checklist s)
      in length phaseItems > 0 \<and> list_all ci_completed phaseItems)"

definition getIncompleteItems :: "State \<Rightarrow> Phase \<Rightarrow> string list" where
  "getIncompleteItems s ph =
     map ci_description (filter (\<lambda>i. ci_phase i = ph \<and> \<not> ci_completed i) (checklist s))"

text \<open>\<open>Array.prototype.join('\n')\<close> and \<open>a || b\<close> on strings.\<close>

fun join_lines :: "string list \<Rightarrow> string" where
  "join_lines [] = []"
| "join_lines [x] = x"
| "join_lines (x # y # ys) = x @ [CHR 0x0A] @ join_lines (y # ys)"

definition or_else :: "string \<Rightarrow> string \<Rightarrow> string" where
  "or_else a b = (if a \<noteq> [] then a else b)"

definition buildPhasePrompt :: "State \<Rightarrow> Prompt" where
  "buildPhasePrompt s =
     (let incompleteItems =
            join_lines (map (\<lambda>i. ''- [ ] '' @ ci_description i)
              (filter (\<lambda>i. ci_phase i = phase s \<and> \<not> ci_completed i) (checklist s)));
          completedItems =
            join_lines (map (\<lambda>i. ''- [x] '' @ ci_description i)
              (filter (\<lambda>i. ci_phase i = phase s \<and> ci_completed i) (checklist s)));
          arts =
            join_lines (map (\<lambda>a. ''- '' @ art_path a)
              (filter (\<lambda>a. art_phase a = phase s) (artifacts s)))
      in PhasePrompt (phase s) (turn s) (overallScore (confidence s)) (prompt s)
           (or_else completedItems ''(none)'')
           (or_else incompleteItems ''(all complete)'')
           (or_else arts ''(none yet)''))"

definition getPhaseSystemPrompt :: "Phase \<Rightarrow> SystemPrompt" where
  "getPhaseSystemPrompt ph = PhaseSystemPrompt ph"

definition summary_json :: "CheckpointSummary \<Rightarrow> jsval" where
  "summary_json c =
     JObj [(''id'', JStr (cs_id c)),
           (''phase'', JStr (phase_name (cs_phase c))),
           (''turn'', JNum (real (cs_turn c))),
           (''checklistProgress'',
              JObj [(''completed'', JNum (real (cs_completed c))),
                    (''total'', JNum (real (cs_total c)))]),
           (''artifactCount'', JNum (real (artifactCount c))),
           (''confidence'', JNum (cs_confidence c)),
           (''createdAt'', JDate (cs_createdAt c))]"

subsection \<open>Decision handlers\<close>

definition decideInitialize :: "string \<Rightarrow> State \<Rightarrow> Effect list" where
  "decideInitialize p s =
     (if turn s > 0 \<or> length (checklist s) > 0
      then [log_effect LWarn ''Attempted to initialize already-started session''
              [(''turn'', JNum (real (turn s)))]]
      else
        [log_effect LInfo ''Initializing Turbine session''
           [(''promptLength'', JNum (real (length p)))],
         startSpan ''turbine.session'' [(''prompt'', JStr (take 100 p))]]
        @ [InvokeLLM (RequirementsExtractionPrompt p)
             (Some REQUIREMENTS_EXTRACTION_SYSTEM_PROMPT) 4000 None])"

definition decideAdvancePhase :: "State \<Rightarrow> Effect list" where
  "decideAdvancePhase s =
     (let currentIndex = indexOf PHASE_ORDER (phase s)
      in case at_index PHASE_ORDER (currentIndex + 1) of
           None \<Rightarrow>
             [log_effect LInfo ''Already at final phase, checking convergence''
                [(''phase'', JStr (phase_name (phase s)))]]
         | Some nextPhase \<Rightarrow>
             (if \<not> isPhaseChecklistComplete s (phase s)
              then [log_effect LWarn ''Cannot advance phase - checklist incomplete''
                      [(''phase'', JStr (phase_name (phase s))),
                       (''incomplete'', JArr (map JStr (getIncompleteItems s (phase s))))]]
              else [log_effect LInfo ''Advancing to next phase''
                      [(''from'', JStr (phase_name (phase s))),
                       (''to'', JStr (phase_name nextPhase))],
                    recordMetric ''phase_completed'' 1
                      [(''phase'', phase_name (phase s))]]))"

definition decideStartTurn :: "State \<Rightarrow> Effect list" where
  "decideStartTurn s =
     (if hasConverged s
      then [log_effect LInfo ''Session converged - no more turns needed''
              [(''confidence'', JNum (overallScore (confidence s))),
               (''streak'', JNum (real (convergenceStreak s)))]]
      else
        (let budget = find (\<lambda>b. tb_phase b = phase s) (budgets s);
             effects =
               [startSpan ''turbine.turn''
                  [(''turn'', JNum (real (turn s + 1))),
                   (''phase'', JStr (phase_name (phase s)))],
                log_effect LInfo ''Starting turn''
                  [(''turn'', JNum (real (turn s + 1))),
                   (''phase'', JStr (phase_name (phase s)))]]
               @ [InvokeLLM (buildPhasePrompt s)
                    (Some (getPhaseSystemPrompt (phase s))) 8000 None]
         in case budget of
              None \<Rightarrow> effects
            | Some b \<Rightarrow>
                (if usedTurns b \<ge> maxTurns b
                 then [log_effect LWarn ''Budget exhausted for phase''
                         [(''phase'', JStr (phase_name (phase s))),
                          (''used'', JNum (real (usedTurns b)))],
                       recordMetric ''budget_exhausted'' 1
                         [(''phase'', phase_name (phase s))]]
                 else effects)))"

text \<open>The body of the loop over \<open>toolUses\<close>: the effects one tool use pushes.\<close>

definition toolUse_effects :: "ToolUse \<Rightarrow> Effect list" where
  "toolUse_effects tu =
     (if tool tu = ''write_file'' \<and> is_object (input tu)
      then (if truthy (get_prop (input tu) ''path'') \<and> truthy (get_prop (input tu) ''content'')
            then [WriteFile (get_prop (input tu) ''path'') (get_prop (input tu) ''content'')]
            else [])
      else [])"

definition decideProcessLLMResponse :: "LLMResponse \<Rightarrow> State \<Rightarrow> Effect list" where
  "decideProcessLLMResponse response s =
     [log_effect LInfo ''Processing LLM response''
        [(''turn'', JNum (real (turn s))),
         (''tokensUsed'', JNum (real (tokensUsed response))),
         (''toolUseCount'', JNum (real (length (toolUses response))))],
      recordMetric ''tokens_used'' (real (tokensUsed response))
        [(''phase'', phase_name (phase s))]]
     @ concat (map toolUse_effects (toolUses response))
     @ (if phase s = Implementation \<or> phase s = Testing
        then [RunTests None (Some True), CheckTypes] else [])"

definition decideRecordArtifact :: "string \<Rightarrow> string \<Rightarrow> State \<Rightarrow> Effect list" where
  "decideRecordArtifact path hash s =
     (case find (\<lambda>a. art_path a = path) (artifacts s) of
        Some existingArtifact \<Rightarrow>
          [log_effect LInfo ''Artifact updated''
             [(''path'', JStr path), (''newHash'', JStr hash)],
           recordMetric ''artifact_updated'' 1 [(''phase'', phase_name (phase s))]]
      | None \<Rightarrow>
          [log_effect LInfo ''Artifact created''
             [(''path'', JStr path), (''hash'', JStr hash)],
           recordMetric ''artifact_created'' 1 [(''phase'', phase_name (phase s))]])"

definition decideRecordTestResult :: "TestResult \<Rightarrow> State \<Rightarrow> Effect list" where
  "decideRecordTestResult result s =
     (let effects =
            [log_effect LInfo ''Test results recorded''
               [(''passed'', JBool (tr_passed result)),
                (''total'', JNum (real (totalTests result))),
                (''failed'', JNum (real (failedTests result))),
                (''coverage'', (case tr_coverage result of
                                  None \<Rightarrow> JUndefined | Some c \<Rightarrow> JNum c))],
             recordMetric ''tests_total'' (real (totalTests result))
               [(''phase'', phase_name (phase s))],
             recordMetric ''tests_passed'' (real (passedTests result))
               [(''phase'', phase_name (phase s))],
             recordMetric ''tests_failed'' (real (failedTests result))
               [(''phase'', phase_name (phase s))]]
            @ (case tr_coverage result of
                 None \<Rightarrow> []
               | Some c \<Rightarrow> [recordMetric ''coverage'' c [(''phase'', phase_name (phase s))]]);
          c1 = (confidence s)\<lparr>testsPass := tr_passed result,
                 coverage := (case tr_coverage result of
                                Some c \<Rightarrow> c | None \<Rightarrow> coverage (confidence s))\<rparr>;
          newConfidence = c1\<lparr>overallScore := calculateOverallConfidence c1\<rparr>
      in effects
         @ [recordMetric ''confidence'' (overallScore newConfidence)
              [(''phase'', phase_name (phase s))]])"

definition decideRecordTypeCheck :: "bool \<Rightarrow> string list option \<Rightarrow> State \<Rightarrow> Effect list" where
  "decideRecordTypeCheck passed errors s =
     [log_effect LInfo ''Type check result'' [(''passed'', JBool passed)],
      recordMetric ''type_check_passed'' (if passed then 1 else 0)
        [(''phase'', phase_name (phase s))]]
     @ (case errors of
          Some es \<Rightarrow>
            (if \<not> passed
             then [log_effect LWarn ''Type errors found''
                     [(''count'', JNum (real (length es))),
                      (''errors'', JArr (map JStr (take 5 es)))]]
             else [])
        | None \<Rightarrow> [])"

definition decideCompleteChecklistItem :: "string \<Rightarrow> string \<Rightarrow> State \<Rightarrow> Effect list" where
  "decideCompleteChecklistItem itemId evidence s =
     (case find (\<lambda>i. ci_id i = itemId) (checklist s) of
        None \<Rightarrow> [log_effect LWarn ''Checklist item not found'' [(''itemId'', JStr itemId)]]
      | Some item \<Rightarrow>
          (if ci_completed item
           then [log_effect LInfo ''Checklist item already completed''
                   [(''itemId'', JStr itemId)]]
           else [log_effect LInfo ''Checklist item completed''
                   [(''itemId'', JStr itemId),
                    (''description'', JStr (ci_description item)),
                    (''evidence'', JStr (take 100 evidence))],
                 recordMetric ''checklist_item_completed'' 1
                   [(''phase'', phase_name (ci_phase item))]]))"

text \<open>
  \<open>decideRequestCheckpoint\<close> reads two values from its environment, \<open>uuid()\<close> and
  \<open>new Date()\<close>; they are the parameters \<open>uid\<close> and \<open>now\<close>.
\<close>

definition decideRequestCheckpoint :: "string \<Rightarrow> timestamp \<Rightarrow> State \<Rightarrow> Effect list" where
  "decideRequestCheckpoint uid now s =
     (case pendingCheckpoint s of
        Some p \<Rightarrow>
          [log_effect LWarn ''Checkpoint already pending'' [(''checkpointId'', JStr (cs_id p))]]
      | None \<Rightarrow>
          (let checklistCompleted = length (filter ci_completed (checklist s));
               checklistTotal = length (checklist s);
               summary = \<lparr>cs_id = uid, cs_phase = phase s, cs_turn = turn s,
                          cs_completed = checklistCompleted, cs_total = checklistTotal,
                          artifactCount = length (artifacts s),
                          cs_confidence = overallScore (confidence s),
                          cs_createdAt = now\<rparr>
           in [log_effect LInfo ''Checkpoint requested'' [(''summary'', summary_json summary)],
               EmitCheckpoint summary,
               WaitForApproval (cs_id summary) 300000]))"

definition decideApproveCheckpoint :: "State \<Rightarrow> Effect list" where
  "decideApproveCheckpoint s =
     (case pendingCheckpoint s of
        None \<Rightarrow> [log_effect LWarn ''No pending checkpoint to approve'' []]
      | Some p \<Rightarrow>
          [log_effect LInfo ''Checkpoint approved'' [(''checkpointId'', JStr (cs_id p))],
           recordMetric ''checkpoint_approved'' 1 [(''phase'', phase_name (phase s))]])"

definition decideRejectCheckpoint :: "string \<Rightarrow> State \<Rightarrow> Effect list" where
  "decideRejectCheckpoint reason s =
     (case pendingCheckpoint s of
        None \<Rightarrow> [log_effect LWarn ''No pending checkpoint to reject'' []]
      | Some p \<Rightarrow>
          [log_effect LWarn ''Checkpoint rejected''
             [(''checkpointId'', JStr (cs_id p)), (''reason'', JStr reason)],
           recordMetric ''checkpoint_rejected'' 1 [(''phase'', phase_name (phase s))]])"

definition decideTimeout :: "Phase \<Rightarrow> State \<Rightarrow> Effect list" where
  "decideTimeout ph s =
     [log_effect LError ''Phase timeout''
        [(''phase'', JStr (phase_name ph)), (''turn'', JNum (real (turn s)))],
      recordMetric ''phase_timeout'' 1 [(''phase'', phase_name ph)]]"

definition decideError :: "string \<Rightarrow> bool \<Rightarrow> State \<Rightarrow> Effect list" where
  "decideError message recoverable s =
     [log_effect LError message
        [(''recoverable'', JBool recoverable), (''turn'', JNum (real (turn s)))],
      recordMetric ''errors_total'' 1
        [(''phase'', phase_name (phase s)),
         (''recoverable'', if recoverable then ''true'' else ''false'')]]"

fun decide :: "string \<Rightarrow> timestamp \<Rightarrow> Command \<Rightarrow> State \<Rightarrow> Effect list" where
  "decide uid now (Initialize p bs) s = decideInitialize p s"
| "decide uid now AdvancePhase s = decideAdvancePhase s"
| "decide uid now StartTurn s = decideStartTurn s"
| "decide uid now (ProcessLLMResponse r) s = decideProcessLLMResponse r s"
| "decide uid now (RecordArtifact path hash) s = decideRecordArtifact path hash s"
| "decide uid now (RecordTestResult r) s = decideRecordTestResult r s"
| "decide uid now (RecordTypeCheck passed errors) s = decideRecordTypeCheck passed errors s"
| "decide uid now (CompleteChecklistItem itemId evidence) s =
     decideCompleteChecklistItem itemId evidence s"
| "decide uid now RequestCheckpoint s = decideRequestCheckpoint uid now s"
| "decide uid now ApproveCheckpoint s = decideApproveCheckpoint s"
| "decide uid now (RejectCheckpoint reason) s = decideRejectCheckpoint reason s"
| "decide uid now (Timeout ph) s = decideTimeout ph s"
| "decide uid now (Error message recoverable) s = decideError message recoverable s"

section \<open>Initial state (core/types.ts)\<close>

fun getDefaultBudget :: "Phase \<Rightarrow> nat" where
  "getDefaultBudget Requirements = 50"
| "getDefaultBudget Design = 100"
| "getDefaultBudget Implementation = 500"
| "getDefaultBudget Testing = 200"
| "getDefaultBudget Documentation = 100"
| "getDefaultBudget Verification = 50"

text \<open>\<open>createInitialState\<close> reads the clock (\<open>new Date()\<close>); the reading is the parameter \<open>now\<close>.\<close>

definition createInitialState :: "timestamp \<Rightarrow> string \<Rightarrow> State" where
  "createInitialState now p =
     \<lparr>phase = Requirements, turn = 0, prompt = p, checklist = [], artifacts = [],
      budgets = map (\<lambda>ph. \<lparr>tb_phase = ph, maxTurns = getDefaultBudget ph, usedTurns = 0\<rparr>)
                  PHASE_ORDER,
      confidence = \<lparr>typesSafe = False, schemaValid = False, testsPass = False,
                     coverage = 0, checklistComplete = False, overallScore = 0\<rparr>,
      pendingCheckpoint = None, lastApprovedCheckpoint = None,
      convergenceStreak = 0, converged = False,
      startedAt = now, lastActivityAt = now\<rparr>"

section \<open>Concrete states and events used in the examples\<close>

definition green_state :: State where
  "green_state =
     (createInitialState 0 ''hello'')
       \<lparr>confidence := \<lparr>typesSafe = True, schemaValid = True, testsPass = False,
                        coverage = 95, checklistComplete = True, overallScore = 0\<rparr>\<rparr>"

definition passing_result :: TestResult where
  "passing_result =
     \<lparr>tr_passed = True, totalTests = 4, passedTests = 4, failedTests = 0,
      tr_coverage = Some 95, failures = []\<rparr>"

definition half_covered :: Confidence where
  "half_covered =
     \<lparr>typesSafe = True, schemaValid = True, testsPass = True,
      coverage = 40, checklistComplete = False, overallScore = 0\<rparr>"

definition example_summary :: CheckpointSummary where
  "example_summary =
     \<lparr>cs_id = ''c1'', cs_phase = Requirements, cs_turn = 0, cs_completed = 0, cs_total = 0,
      artifactCount = 0, cs_confidence = 0, cs_createdAt = 5\<rparr>"

definition converged_state :: State where
  "converged_state =
     green_state\<lparr>confidence := \<lparr>typesSafe = True, schemaValid = True, testsPass = True,
                                  coverage = 95, checklistComplete = True, overallScore = 1\<rparr>,
                  convergenceStreak := 3, converged := True\<rparr>"

definition failing_result :: TestResult where
  "failing_result =
     \<lparr>tr_passed = False, totalTests = 4, passedTests = 3, failedTests = 1,
      tr_coverage = None, failures = [(''t1'', ''boom'')]\<rparr>"

definition stale_score_state :: State where
  "stale_score_state =
     converged_state\<lparr>confidence := \<lparr>typesSafe = False, schemaValid = True, testsPass = False,
                                      coverage = 95, checklistComplete = True,
                                      overallScore = 1\<rparr>\<rparr>"

definition open_item :: ChecklistItem where
  "open_item =
     \<lparr>ci_id = ''a'', ci_phase = Requirements, ci_description = ''todo'',
      ci_completed = False, ci_evidence = None, ci_completedAt = None\<rparr>"

definition open_item_state :: State where
  "open_item_state = converged_state\<lparr>checklist := [open_item]\<rparr>"

definition spent_budget_state :: State where
  "spent_budget_state =
     green_state\<lparr>phase := Implementation,
       budgets := [\<lparr>tb_phase = Requirements, maxTurns = 50, usedTurns = 0\<rparr>,
                   \<lparr>tb_phase = Design, maxTurns = 100, usedTurns = 0\<rparr>,
                   \<lparr>tb_phase = Implementation, maxTurns = 1, usedTurns = 1\<rparr>,
                   \<lparr>tb_phase = Testing, maxTurns = 200, usedTurns = 0\<rparr>,
                   \<lparr>tb_phase = Documentation, maxTurns = 100, usedTurns = 0\<rparr>,
                   \<lparr>tb_phase = Verification, maxTurns = 50, usedTurns = 0\<rparr>]\<rparr>"

definition write_response :: LLMResponse where
  "write_response =
     \<lparr>content = ''done'',
      toolUses = [\<lparr>tool = ''write_file'',
                   input = JObj [(''path'', JStr ''a.ts''), (''content'', JStr ''x'')],
                   tu_result = None\<rparr>],
      tokensUsed = 12\<rparr>"

text \<open>The level of a \<open>Log\<close> effect; other effects have none.\<close>

fun log_level :: "Effect \<Rightarrow> LogLevel option" where
  "log_level (Log l m c) = Some l"
| "log_level e = None"

section \<open>Verified properties\<close>

lemmas example_defs =
  createInitialState_def green_state_def passing_result_def half_covered_def
  example_summary_def PHASE_ORDER_def

lemmas decide_defs =
  decideInitialize_def decideAdvancePhase_def decideStartTurn_def
  decideProcessLLMResponse_def decideRecordArtifact_def decideRecordTestResult_def
  decideRecordTypeCheck_def decideCompleteChecklistItem_def decideRequestCheckpoint_def
  decideApproveCheckpoint_def decideRejectCheckpoint_def decideTimeout_def decideError_def

lemmas effect_defs = log_effect_def startSpan_def recordMetric_def

lemmas evolve_defs =
  evolveInitialized_def evolvePhaseStarted_def evolvePhaseCompleted_def
  evolveTurnStarted_def evolveTurnCompleted_def evolveArtifactCreated_def
  evolveArtifactUpdated_def evolveChecklistItemCompleted_def evolveTestsPassed_def
  evolveTestsFailed_def evolveTypeCheckPassed_def evolveTypeCheckFailed_def
  evolveConfidenceUpdated_def evolveCheckpointCreated_def evolveCheckpointApproved_def
  evolveCheckpointRejected_def evolveConvergenceReached_def evolveBudgetExhausted_def
  evolveErrorOccurred_def

subsection \<open>Confidence arithmetic\<close>

text \<open>
  Claim C1. For every confidence record whose coverage lies between 0 and 100,
  \<open>calculateOverallConfidence\<close> returns 0 when \<open>typesSafe\<close> is false; else 0 when
  \<open>schemaValid\<close> is false; else 0.3 when \<open>testsPass\<close> is false; else 0.5 plus
  \<open>min(coverage/80, 1) * 0.25\<close>, plus 0.25 when \<open>checklistComplete\<close> holds; and the
  result never exceeds 1.
\<close>

theorem calculateOverallConfidence_spec:
  assumes "0 \<le> coverage c" and "coverage c \<le> 100"
  shows "calculateOverallConfidence c =
           (if \<not> typesSafe c then 0.0
            else if \<not> schemaValid c then 0.0
            else if \<not> testsPass c then 0.3
            else 0.5 + min (coverage c / 80) 1.0 * 0.25
                   + (if checklistComplete c then 0.25 else 0))
         \<and> calculateOverallConfidence c \<le> 1.0"
  by (simp add: calculateOverallConfidence_def Let_def min_def)

theorem calculateOverallConfidence_spec_witness:
  "(0::real) \<le> coverage half_covered \<and> coverage half_covered \<le> 100
   \<and> calculateOverallConfidence half_covered = 0.625
   \<and> calculateOverallConfidence half_covered \<le> 1"
  using calculateOverallConfidence_spec [of half_covered]
  by (simp add: half_covered_def)

subsection \<open>Convergence in three passing test runs\<close>

lemma evolve_TestsPassed_green:
  assumes "typesSafe (confidence s)" and "schemaValid (confidence s)"
    and "checklistComplete (confidence s)" and "tr_coverage r = Some 95"
  shows "typesSafe (confidence (evolve s (TestsPassed r t)))"
    and "schemaValid (confidence (evolve s (TestsPassed r t)))"
    and "checklistComplete (confidence (evolve s (TestsPassed r t)))"
    and "overallScore (confidence (evolve s (TestsPassed r t))) = 1"
    and "convergenceStreak (evolve s (TestsPassed r t)) = convergenceStreak s + 1"
    and "converged (evolve s (TestsPassed r t)) \<longleftrightarrow> convergenceStreak s + 1 \<ge> 3"
  using assms
  by (simp_all add: evolveTestsPassed_def Let_def calculateOverallConfidence_def
      hasConverged_def CONVERGENCE_THRESHOLD_def CONVERGENCE_STREAK_REQUIRED_def)

text \<open>
  Claim C2. From any state whose confidence has \<open>typesSafe\<close>, \<open>schemaValid\<close> and
  \<open>checklistComplete\<close> set, coverage 95 and a convergence streak of 0, applying three
  \<open>TestsPassed\<close> events, each reporting coverage 95, one after the other yields a state
  with \<open>overallScore = 1.0\<close>, \<open>convergenceStreak = 3\<close> and \<open>converged = true\<close>.
\<close>

theorem three_TestsPassed_converge:
  assumes "typesSafe (confidence s)" and "schemaValid (confidence s)"
    and "checklistComplete (confidence s)" and "coverage (confidence s) = 95"
    and "convergenceStreak s = 0"
    and "tr_coverage r1 = Some 95" and "tr_coverage r2 = Some 95"
    and "tr_coverage r3 = Some 95"
  shows "overallScore (confidence
           (replay [TestsPassed r1 t1, TestsPassed r2 t2, TestsPassed r3 t3] s)) = 1.0
         \<and> convergenceStreak
             (replay [TestsPassed r1 t1, TestsPassed r2 t2, TestsPassed r3 t3] s) = 3
         \<and> converged (replay [TestsPassed r1 t1, TestsPassed r2 t2, TestsPassed r3 t3] s)"
proof -
  let ?s1 = "evolve s (TestsPassed r1 t1)"
  let ?s2 = "evolve ?s1 (TestsPassed r2 t2)"
  let ?s3 = "evolve ?s2 (TestsPassed r3 t3)"
  note first = evolve_TestsPassed_green [OF assms(1-3) assms(6), of t1]
  note second = evolve_TestsPassed_green [OF first(1-3) assms(7), of t2]
  note third = evolve_TestsPassed_green [OF second(1-3) assms(8), of t3]
  have unfolded: "replay [TestsPassed r1 t1, TestsPassed r2 t2, TestsPassed r3 t3] s = ?s3"
    by (simp add: replay_def)
  have streak: "convergenceStreak ?s3 = 3"
    using third(5) second(5) first(5) assms(5) by simp
  have conv: "converged ?s3"
    using third(6) second(5) first(5) assms(5) by simp
  show ?thesis
    using unfolded streak conv third(4) by simp
qed

theorem three_TestsPassed_converge_witness:
  "overallScore (confidence
     (replay [TestsPassed passing_result 1, TestsPassed passing_result 2,
              TestsPassed passing_result 3] green_state)) = 1
   \<and> convergenceStreak
       (replay [TestsPassed passing_result 1, TestsPassed passing_result 2,
                TestsPassed passing_result 3] green_state) = 3
   \<and> converged
       (replay [TestsPassed passing_result 1, TestsPassed passing_result 2,
                TestsPassed passing_result 3] green_state)"
  using three_TestsPassed_converge
          [of green_state passing_result passing_result passing_result 1 2 3]
  by (simp add: example_defs)

subsection \<open>The turn counter\<close>

text \<open>
  Claim C3 says that \<open>evolve\<close> never lowers the turn counter. \<open>evolveTurnStarted\<close>
  overwrites the counter with the event's own turn, so an event carrying a smaller turn
  lowers it: from turn 5, \<open>TurnStarted{turn = 3}\<close> leads to turn 3.
\<close>

theorem turn_monotone_counterexample:
  "\<not> turn (green_state\<lparr>turn := 5\<rparr>)
       \<le> turn (evolve (green_state\<lparr>turn := 5\<rparr>) (TurnStarted 3 Requirements 7))"
  by (simp add: evolveTurnStarted_def)

text \<open>
  Claim C3, amended. The turn counter of \<open>evolve(state, event)\<close> is 0 when the event is
  \<open>Initialized\<close>, the event's turn when it is \<open>TurnStarted\<close>, and \<open>state.turn\<close> for
  an event of any other kind. Hence it is at least \<open>state.turn\<close> exactly when the event
  is an \<open>Initialized\<close> applied at turn 0, a \<open>TurnStarted\<close> whose turn is at least
  \<open>state.turn\<close>, or an event of any other kind.
\<close>

theorem turn_monotone_amended:
  "turn (evolve s e) =
     (case e of
        Initialized p cl bs t \<Rightarrow> 0
      | TurnStarted n ph t \<Rightarrow> n
      | _ \<Rightarrow> turn s)
   \<and> (turn s \<le> turn (evolve s e) \<longleftrightarrow>
        (case e of
           Initialized p cl bs t \<Rightarrow> turn s = 0
         | TurnStarted n ph t \<Rightarrow> turn s \<le> n
         | _ \<Rightarrow> True))"
  by (cases e) (simp_all add: evolve_defs Let_def)

theorem turn_monotone_amended_witness:
  "turn green_state \<le> turn (evolve green_state (TurnStarted 1 Requirements 7))
   \<and> turn (evolve green_state (TurnStarted 1 Requirements 7)) = 1"
  using turn_monotone_amended [of green_state "TurnStarted 1 Requirements 7"]
  by (simp add: example_defs)

subsection \<open>Checkpoint approval\<close>

text \<open>
  Claim C7. Applying \<open>CheckpointApproved\<close> twice with the same checkpoint id is
  idempotent: with \<open>s1 = evolve(s, CheckpointApproved{c})\<close>, a second
  \<open>CheckpointApproved{c}\<close> (whatever its timestamp) leaves \<open>s1\<close> unchanged.
\<close>

theorem CheckpointApproved_idempotent:
  "evolve (evolve s (CheckpointApproved c t1)) (CheckpointApproved c t2)
     = evolve s (CheckpointApproved c t1)"
  by (simp add: evolveCheckpointApproved_def pending_id_differs_def split: option.splits)

theorem CheckpointApproved_idempotent_witness:
  "evolve (evolve (green_state\<lparr>pendingCheckpoint := Some example_summary\<rparr>)
             (CheckpointApproved ''c1'' 10)) (CheckpointApproved ''c1'' 20)
     = green_state\<lparr>lastApprovedCheckpoint := Some example_summary, lastActivityAt := 10\<rparr>"
  using CheckpointApproved_idempotent
          [of "green_state\<lparr>pendingCheckpoint := Some example_summary\<rparr>" "''c1''" 10 20]
  by (simp add: example_defs evolveCheckpointApproved_def pending_id_differs_def)

subsection \<open>The activity timestamp\<close>

text \<open>
  Claim C9 says that every arm of \<open>evolve\<close> sets \<open>lastActivityAt\<close> to the event's
  timestamp. \<open>evolveCheckpointApproved\<close> and \<open>evolveCheckpointRejected\<close> return the
  state as it is when the event's id is not the id of the pending checkpoint: with no
  checkpoint pending and \<open>lastActivityAt = 0\<close>, a \<open>CheckpointApproved\<close> stamped 99
  leaves \<open>lastActivityAt\<close> at 0.
\<close>

theorem lastActivityAt_counterexample:
  "lastActivityAt (evolve green_state (CheckpointApproved ''c1'' 99))
     \<noteq> timestamp_of (CheckpointApproved ''c1'' 99)"
  by (simp add: example_defs evolveCheckpointApproved_def pending_id_differs_def)

text \<open>
  Claim C9, amended. \<open>evolve(state, event).lastActivityAt\<close> equals the event's
  timestamp for every event except a \<open>CheckpointApproved\<close> or \<open>CheckpointRejected\<close>
  whose \<open>checkpointId\<close> is not the id of a pending checkpoint; for those,
  \<open>evolve(state, event)\<close> is \<open>state\<close> itself, unchanged.
\<close>

theorem lastActivityAt_amended:
  "(case e of
      CheckpointApproved i t \<Rightarrow>
        (if map_option cs_id (pendingCheckpoint s) = Some i
         then lastActivityAt (evolve s e) = t else evolve s e = s)
    | CheckpointRejected i r t \<Rightarrow>
        (if map_option cs_id (pendingCheckpoint s) = Some i
         then lastActivityAt (evolve s e) = t else evolve s e = s)
    | _ \<Rightarrow> lastActivityAt (evolve s e) = timestamp_of e)"
  by (cases e)
     (auto simp add: evolve_defs Let_def pending_id_differs_def split: option.splits)

theorem lastActivityAt_amended_witness:
  "lastActivityAt (evolve (green_state\<lparr>pendingCheckpoint := Some example_summary\<rparr>)
                      (CheckpointRejected ''c1'' ''no'' 42)) = 42
   \<and> evolve (green_state\<lparr>pendingCheckpoint := Some example_summary\<rparr>)
         (CheckpointRejected ''c2'' ''no'' 42)
       = green_state\<lparr>pendingCheckpoint := Some example_summary\<rparr>"
  using lastActivityAt_amended
          [where e = "CheckpointRejected ''c1'' ''no'' 42"
             and s = "green_state\<lparr>pendingCheckpoint := Some example_summary\<rparr>"]
        lastActivityAt_amended
          [where e = "CheckpointRejected ''c2'' ''no'' 42"
             and s = "green_state\<lparr>pendingCheckpoint := Some example_summary\<rparr>"]
  by (simp add: example_defs)

subsection \<open>The phase index\<close>

lemma indexOf_PHASE_ORDER:
  "indexOf PHASE_ORDER Requirements = 0"
  "indexOf PHASE_ORDER Design = 1"
  "indexOf PHASE_ORDER Implementation = 2"
  "indexOf PHASE_ORDER Testing = 3"
  "indexOf PHASE_ORDER Documentation = 4"
  "indexOf PHASE_ORDER Verification = 5"
  by (simp_all add: PHASE_ORDER_def)

lemma indexOf_PHASE_ORDER_range:
  "0 \<le> indexOf PHASE_ORDER ph \<and> indexOf PHASE_ORDER ph \<le> 5"
  by (cases ph) (simp_all add: indexOf_PHASE_ORDER)

lemma next_phase_index:
  "indexOf PHASE_ORDER
     (case at_index PHASE_ORDER (indexOf PHASE_ORDER ph + 1) of Some n \<Rightarrow> n | None \<Rightarrow> ph)
     = min (indexOf PHASE_ORDER ph + 1) 5"
  by (cases ph)
     (simp_all add: indexOf_PHASE_ORDER at_index_def, simp_all add: PHASE_ORDER_def)

text \<open>
  Claim C4 says that the index of the phase in \<open>PHASE_ORDER\<close> never decreases across an
  \<open>evolve\<close> step. \<open>evolvePhaseStarted\<close> sets the phase to the event's phase whatever the
  current one is: in phase \<open>verification\<close>, \<open>PhaseStarted{phase = requirements}\<close> leads
  back to \<open>requirements\<close>.
\<close>

theorem phase_monotone_counterexample:
  "\<not> indexOf PHASE_ORDER (phase (green_state\<lparr>phase := Verification\<rparr>))
       \<le> indexOf PHASE_ORDER
            (phase (evolve (green_state\<lparr>phase := Verification\<rparr>)
               (PhaseStarted Requirements
                  \<lparr>tb_phase = Requirements, maxTurns = 1, usedTurns = 0\<rparr> 3)))"
  by (simp add: evolvePhaseStarted_def indexOf_PHASE_ORDER)

text \<open>
  Claim C4, amended. The phase of \<open>evolve(state, event)\<close> is \<open>requirements\<close> when the
  event is \<open>Initialized\<close>; the event's phase when it is \<open>PhaseStarted\<close>; the successor
  in \<open>PHASE_ORDER\<close> of the event's phase (\<open>verification\<close> for \<open>verification\<close>) when it
  is \<open>PhaseCompleted\<close>; and \<open>state.phase\<close> for an event of any other kind. Hence its
  index in \<open>PHASE_ORDER\<close> is at least that of \<open>state.phase\<close> exactly when the event is
  an \<open>Initialized\<close> applied in phase \<open>requirements\<close>, a \<open>PhaseStarted\<close> whose phase is
  not before \<open>state.phase\<close>, a \<open>PhaseCompleted\<close> whose phase is at most one step before
  \<open>state.phase\<close>, or an event of any other kind.
\<close>

theorem phase_monotone_amended:
  "phase (evolve s e) =
     (case e of
        Initialized p cl bs t \<Rightarrow> Requirements
      | PhaseStarted ph b t \<Rightarrow> ph
      | PhaseCompleted ph n t \<Rightarrow>
          (case ph of
             Requirements \<Rightarrow> Design
           | Design \<Rightarrow> Implementation
           | Implementation \<Rightarrow> Testing
           | Testing \<Rightarrow> Documentation
           | Documentation \<Rightarrow> Verification
           | Verification \<Rightarrow> Verification)
      | _ \<Rightarrow> phase s)
   \<and> (indexOf PHASE_ORDER (phase s) \<le> indexOf PHASE_ORDER (phase (evolve s e)) \<longleftrightarrow>
        (case e of
           Initialized p cl bs t \<Rightarrow> phase s = Requirements
         | PhaseStarted ph b t \<Rightarrow> indexOf PHASE_ORDER (phase s) \<le> indexOf PHASE_ORDER ph
         | PhaseCompleted ph n t \<Rightarrow>
             indexOf PHASE_ORDER (phase s) \<le> indexOf PHASE_ORDER ph + 1
         | _ \<Rightarrow> True))"
proof (cases e)
  case (Initialized p cl bs t)
  then show ?thesis
    by (cases "phase s") (simp_all add: evolveInitialized_def indexOf_PHASE_ORDER)
next
  case (PhaseCompleted ph n t)
  have successor: "phase (evolve s e) =
          (case ph of
             Requirements \<Rightarrow> Design
           | Design \<Rightarrow> Implementation
           | Implementation \<Rightarrow> Testing
           | Testing \<Rightarrow> Documentation
           | Documentation \<Rightarrow> Verification
           | Verification \<Rightarrow> Verification)"
    using PhaseCompleted
    by (cases ph)
       (simp_all add: evolvePhaseCompleted_def Let_def indexOf_PHASE_ORDER at_index_def,
        simp_all add: PHASE_ORDER_def)
  have index: "indexOf PHASE_ORDER (phase s) \<le> indexOf PHASE_ORDER (phase (evolve s e))
      \<longleftrightarrow> indexOf PHASE_ORDER (phase s) \<le> indexOf PHASE_ORDER ph + 1"
    using PhaseCompleted indexOf_PHASE_ORDER_range [of "phase s"]
    by (simp add: evolvePhaseCompleted_def Let_def next_phase_index)
  show ?thesis
    using successor index PhaseCompleted by simp
qed (simp_all add: evolve_defs Let_def)

theorem phase_monotone_amended_witness:
  "indexOf PHASE_ORDER (phase green_state)
     \<le> indexOf PHASE_ORDER (phase (evolve green_state (PhaseCompleted Requirements 3 9)))
   \<and> phase (evolve green_state (PhaseCompleted Requirements 3 9)) = Design"
  using phase_monotone_amended [of green_state "PhaseCompleted Requirements 3 9"]
  by (simp add: example_defs indexOf_PHASE_ORDER)

subsection \<open>The convergence invariant\<close>

lemmas invariant_example_defs =
  converged_state_def stale_score_state_def open_item_state_def open_item_def
  failing_result_def example_defs

lemma updated_checklist_complete:
  "list_all ci_completed
     (map (\<lambda>item. if ci_id item = i
                   then item\<lparr>ci_completed := True, ci_evidence := Some ev,
                             ci_completedAt := Some t\<rparr>
                   else item) cl)
   = list_all (\<lambda>item. ci_id item = i \<or> ci_completed item) cl"
  by (induction cl) simp_all

text \<open>
  Claim C5 says that \<open>evolve\<close> preserves
  \<open>converged \<Longrightarrow> overallScore \<ge> 0.9 \<and> convergenceStreak \<ge> 3\<close>.
  Five handlers write the score or the streak and do not derive \<open>converged\<close> from them.
  From a converged state with score 1 and streak 3:
  \<^item> \<open>ConvergenceReached{finalConfidence = 0.5}\<close> overwrites the score with 0.5;
  \<^item> \<open>TestsFailed\<close> and \<open>TypeCheckFailed\<close> reset the streak to 0;
  \<^item> \<open>TypeCheckPassed\<close> recomputes the score, 0.3 when the stored \<open>testsPass\<close> is false;
  \<^item> \<open>ChecklistItemCompleted\<close> recomputes \<open>checklistComplete\<close> and the score, 0.75
    when another item of the checklist is still open;
  and in each case \<open>converged\<close> stays true.
\<close>

theorem convergence_invariant_counterexample:
  "(converged converged_state \<and> overallScore (confidence converged_state) \<ge> 0.9
      \<and> convergenceStreak converged_state \<ge> 3)
   \<and> (converged (evolve converged_state (ConvergenceReached 0.5 3 9))
      \<and> \<not> overallScore (confidence (evolve converged_state (ConvergenceReached 0.5 3 9)))
             \<ge> 0.9)
   \<and> (converged (evolve converged_state (TestsFailed failing_result 9))
      \<and> \<not> convergenceStreak (evolve converged_state (TestsFailed failing_result 9)) \<ge> 3)
   \<and> (converged (evolve converged_state (TypeCheckFailed [''e''] 9))
      \<and> \<not> convergenceStreak (evolve converged_state (TypeCheckFailed [''e''] 9)) \<ge> 3)
   \<and> (converged stale_score_state \<and> overallScore (confidence stale_score_state) \<ge> 0.9
      \<and> convergenceStreak stale_score_state \<ge> 3
      \<and> converged (evolve stale_score_state (TypeCheckPassed 9))
      \<and> \<not> overallScore (confidence (evolve stale_score_state (TypeCheckPassed 9))) \<ge> 0.9)
   \<and> (converged open_item_state \<and> overallScore (confidence open_item_state) \<ge> 0.9
      \<and> convergenceStreak open_item_state \<ge> 3
      \<and> converged (evolve open_item_state (ChecklistItemCompleted ''b'' ''ev'' 9))
      \<and> \<not> overallScore (confidence
              (evolve open_item_state (ChecklistItemCompleted ''b'' ''ev'' 9))) \<ge> 0.9)"
  by (simp add: invariant_example_defs evolveConvergenceReached_def evolveTestsFailed_def
        evolveTypeCheckFailed_def evolveTypeCheckPassed_def evolveChecklistItemCompleted_def
        Let_def calculateOverallConfidence_def)

text \<open>
  Claim C5, amended. For every state in which \<open>converged\<close> implies
  \<open>overallScore \<ge> 0.9\<close> and \<open>convergenceStreak \<ge> 3\<close>, and for every event, the state
  returned by \<open>evolve\<close> satisfies the same implication, provided that
  \<^item> if the event is \<open>ConvergenceReached\<close>, its \<open>finalConfidence\<close> is at least 0.9 and
    the state's streak at least 3;
  \<^item> if it is \<open>TestsFailed\<close> or \<open>TypeCheckFailed\<close>, the state is not converged;
  \<^item> if it is \<open>TypeCheckPassed\<close>, the state is not converged or
    \<open>calculateOverallConfidence\<close> of its confidence with \<open>typesSafe = true\<close> is at
    least 0.9;
  \<^item> if it is \<open>ChecklistItemCompleted\<close>, the state is not converged or
    \<open>calculateOverallConfidence\<close> of its confidence, with \<open>checklistComplete\<close> set to
    "every checklist item is completed or has the event's \<open>itemId\<close>", is at least 0.9.
  Events of the other fourteen kinds need no condition.
\<close>

theorem convergence_invariant_amended:
  assumes "converged s \<longrightarrow> overallScore (confidence s) \<ge> 0.9 \<and> convergenceStreak s \<ge> 3"
    and "case e of
           ConvergenceReached f n t \<Rightarrow> f \<ge> 0.9 \<and> convergenceStreak s \<ge> 3
         | TestsFailed r t \<Rightarrow> \<not> converged s
         | TypeCheckFailed es t \<Rightarrow> \<not> converged s
         | TypeCheckPassed t \<Rightarrow>
             converged s \<longrightarrow>
               calculateOverallConfidence ((confidence s)\<lparr>typesSafe := True\<rparr>) \<ge> 0.9
         | ChecklistItemCompleted i ev t \<Rightarrow>
             converged s \<longrightarrow>
               calculateOverallConfidence
                 ((confidence s)\<lparr>checklistComplete :=
                    list_all (\<lambda>item. ci_id item = i \<or> ci_completed item) (checklist s)\<rparr>)
                 \<ge> 0.9
         | _ \<Rightarrow> True"
  shows "converged (evolve s e) \<longrightarrow>
           overallScore (confidence (evolve s e)) \<ge> 0.9 \<and> convergenceStreak (evolve s e) \<ge> 3"
  using assms
  by (cases e)
     (simp_all add: evolve_defs Let_def hasConverged_def updated_checklist_complete
        CONVERGENCE_THRESHOLD_def CONVERGENCE_STREAK_REQUIRED_def)

theorem convergence_invariant_amended_witness:
  "converged converged_state
   \<and> converged (evolve converged_state (TypeCheckPassed 4))
   \<and> overallScore (confidence (evolve converged_state (TypeCheckPassed 4))) \<ge> 0.9
   \<and> convergenceStreak (evolve converged_state (TypeCheckPassed 4)) \<ge> 3"
  using convergence_invariant_amended [of converged_state "TypeCheckPassed 4"]
  by (simp add: invariant_example_defs calculateOverallConfidence_def
        evolveTypeCheckPassed_def Let_def)

subsection \<open>Budget enforcement in \<open>StartTurn\<close>\<close>

text \<open>
  \<open>decideStartTurn\<close> reads the budget with \<open>Array.prototype.find\<close>, which returns the
  first entry for the phase; when the phase has exactly one entry, that entry is the one
  found.
\<close>

lemma find_unique_entry:
  "length (filter P xs) = 1 \<Longrightarrow> b \<in> set xs \<Longrightarrow> P b \<Longrightarrow> find P xs = Some b"
proof (induction xs)
  case Nil
  then show ?case by simp
next
  case (Cons x xs)
  show ?case
  proof (cases "P x")
    case True
    with Cons.prems(1) have "filter P xs = []" by simp
    then have "\<forall>y \<in> set xs. \<not> P y" by (simp add: filter_empty_conv)
    with Cons.prems(2,3) have "b = x" by auto
    with True show ?thesis by simp
  next
    case False
    with Cons.prems have "length (filter P xs) = 1" and "b \<in> set xs" by auto
    with Cons.IH Cons.prems(3) False show ?thesis by simp
  qed
qed

text \<open>
  Claim C6. For every state of the data model (\<open>budgets\<close> holds exactly one entry for
  each phase of \<open>PHASE_ORDER\<close>) for which \<open>hasConverged\<close> is false and whose budgets
  list contains an entry for the current phase with \<open>usedTurns \<ge> maxTurns\<close>,
  \<open>decide(StartTurn, state)\<close> returns exactly a warn-level \<open>Log\<close> effect and a
  \<open>RecordMetric\<close> effect named \<open>budget_exhausted\<close>, and contains no \<open>InvokeLLM\<close> effect.
\<close>

theorem StartTurn_budget_exhausted:
  assumes "\<not> hasConverged s"
    and "list_all (\<lambda>p. length (filter (\<lambda>b. tb_phase b = p) (budgets s)) = 1) PHASE_ORDER"
    and "b \<in> set (budgets s)" and "tb_phase b = phase s" and "usedTurns b \<ge> maxTurns b"
  shows "decide uid now StartTurn s =
           [Log LWarn ''Budget exhausted for phase''
              [(''phase'', JStr (phase_name (phase s))),
               (''used'', JNum (real (usedTurns b)))],
            RecordMetric ''budget_exhausted'' 1 [(''phase'', phase_name (phase s))]]
         \<and> \<not> list_ex isInvokeLLM (decide uid now StartTurn s)"
proof -
  have "length (filter (\<lambda>b. tb_phase b = phase s) (budgets s)) = 1"
    using assms(2) by (cases "phase s") (simp_all add: PHASE_ORDER_def)
  then have "find (\<lambda>b. tb_phase b = phase s) (budgets s) = Some b"
    using assms(3,4) by (rule find_unique_entry)
  then show ?thesis
    using assms(1,5) by (simp add: decideStartTurn_def Let_def effect_defs)
qed

theorem StartTurn_budget_exhausted_witness:
  "\<not> hasConverged spent_budget_state
   \<and> list_all (\<lambda>p. length (filter (\<lambda>b. tb_phase b = p) (budgets spent_budget_state)) = 1)
       PHASE_ORDER
   \<and> decide ''u'' 0 StartTurn spent_budget_state =
       [Log LWarn ''Budget exhausted for phase''
          [(''phase'', JStr ''implementation''), (''used'', JNum 1)],
        RecordMetric ''budget_exhausted'' 1 [(''phase'', ''implementation'')]]
   \<and> \<not> list_ex isInvokeLLM (decide ''u'' 0 StartTurn spent_budget_state)"
  using StartTurn_budget_exhausted
          [of spent_budget_state
              "\<lparr>tb_phase = Implementation, maxTurns = 1, usedTurns = 1\<rparr>" "''u''" 0]
  by (simp add: spent_budget_state_def example_defs hasConverged_def
        CONVERGENCE_THRESHOLD_def)

subsection \<open>\<open>AdvancePhase\<close> at the final phase\<close>

text \<open>
  Claim C8 says that \<open>AdvancePhase\<close> at the last phase returns one warn-level \<open>Log\<close>.
  \<open>decideAdvancePhase\<close> logs that case at level \<open>info\<close>.
\<close>

theorem AdvancePhase_final_counterexample:
  "phase (green_state\<lparr>phase := Verification\<rparr>) = last PHASE_ORDER
   \<and> map log_level (decide ''u'' 0 AdvancePhase (green_state\<lparr>phase := Verification\<rparr>))
       \<noteq> [Some LWarn]"
  by (simp add: decideAdvancePhase_def Let_def effect_defs at_index_def PHASE_ORDER_def)

text \<open>
  Claim C8, amended. For every state whose phase is the last element of \<open>PHASE_ORDER\<close>
  (\<open>verification\<close>), \<open>decide(AdvancePhase, state)\<close> returns exactly one effect, an
  info-level \<open>Log\<close> (no metric, no phase advancement effects).
\<close>

theorem AdvancePhase_final_amended:
  assumes "phase s = last PHASE_ORDER"
  shows "decide uid now AdvancePhase s =
           [Log LInfo ''Already at final phase, checking convergence''
              [(''phase'', JStr ''verification'')]]"
  using assms
  by (simp add: decideAdvancePhase_def Let_def effect_defs at_index_def PHASE_ORDER_def)

theorem AdvancePhase_final_amended_witness:
  "phase (green_state\<lparr>phase := Verification\<rparr>) = last PHASE_ORDER
   \<and> map log_level (decide ''u'' 0 AdvancePhase (green_state\<lparr>phase := Verification\<rparr>))
       = [Some LInfo]"
  using AdvancePhase_final_amended [of "green_state\<lparr>phase := Verification\<rparr>" "''u''" 0]
  by (simp add: PHASE_ORDER_def)

subsection \<open>The decider requests no persistence\<close>

lemma toolUse_effects_kinds:
  "e \<in> set (toolUse_effects tu) \<Longrightarrow> \<not> isPersistEvent e \<and> \<not> isCreateSnapshot e"
  by (auto simp add: toolUse_effects_def split: if_splits)

text \<open>
  Claim C10. For every command and every state, the effect list returned by \<open>decide\<close> is
  non-empty and contains neither a \<open>PersistEvent\<close> nor a \<open>CreateSnapshot\<close> effect.
\<close>

theorem decide_nonempty_no_persistence:
  "decide uid now c s \<noteq> []
   \<and> (\<forall>e \<in> set (decide uid now c s). \<not> isPersistEvent e \<and> \<not> isCreateSnapshot e)"
proof (cases c)
  case (ProcessLLMResponse r)
  then show ?thesis
    by (auto simp add: decideProcessLLMResponse_def effect_defs
          dest: toolUse_effects_kinds)
qed (auto simp add: decide_defs effect_defs Let_def split: option.splits if_splits)

theorem decide_nonempty_no_persistence_witness:
  "length (decide ''u'' 0 (ProcessLLMResponse write_response) spent_budget_state) = 5
   \<and> list_all (\<lambda>e. \<not> isPersistEvent e \<and> \<not> isCreateSnapshot e)
       (decide ''u'' 0 (ProcessLLMResponse write_response) spent_budget_state)"
  using decide_nonempty_no_persistence
          [of "''u''" 0 "ProcessLLMResponse write_response" spent_budget_state]
  by (simp add: decideProcessLLMResponse_def effect_defs toolUse_effects_def
        write_response_def spent_budget_state_def)

end
